theory Spec2Isabelle
  imports Main "HOL-Library.Sublist"
begin

section \<open>JavaScript string and array primitives used by the service\<close>

text \<open>
  JavaScript strings are sequences of code units; they are modelled as \<open>string\<close>
  (a list of characters, each a code unit below 256). The three separators the code
  splits on and the three markers it searches for are ASCII, so the list model behaves
  as the source does.
\<close>

text \<open>\<open>xs[i]\<close>: an index outside the array reads \<open>undefined\<close> (here \<open>None\<close>).\<close>

fun js_index :: "'a list \<Rightarrow> nat \<Rightarrow> 'a option" where
  "js_index [] i = None"
| "js_index (x # xs) 0 = Some x"
| "js_index (x # xs) (Suc i) = js_index xs i"

text \<open>
  \<open>s.split(c)\<close> for a one-character separator: cuts at every occurrence of \<open>c\<close>;
  the result always has one more element than \<open>s\<close> has separators.
\<close>

fun js_split :: "char \<Rightarrow> string \<Rightarrow> string list" where
  "js_split c [] = [[]]"
| "js_split c (x # xs) =
     (if x = c then [] # js_split c xs
      else (case js_split c xs of
              [] \<Rightarrow> [[x]]
            | y # ys \<Rightarrow> (x # y) # ys))"

text \<open>\<open>s.includes(sub)\<close>: \<open>sub\<close> occurs in \<open>s\<close> as a contiguous block.\<close>

fun js_includes :: "string \<Rightarrow> string \<Rightarrow> bool" where
  "js_includes [] sub = (sub = [])"
| "js_includes (x # xs) sub = (prefix sub (x # xs) \<or> js_includes xs sub)"

section \<open>Data of the generative-image capability\<close>

text \<open>A request part: \<open>{ text }\<close> or \<open>{ inlineData: { data, mimeType } }\<close>. The two
  fields of an inline part come out of array indexing in \<open>editWatercolourPainting\<close>
  and may be \<open>undefined\<close>.\<close>

datatype req_part =
    TextPart string
  | InlineDataPart (req_data: "string option") (req_mimeType: "string option")

text \<open>The response envelope: every level that the code reads with \<open>?.\<close> is optional.
  An image-bearing part carries a media type and base64 data, both strings.\<close>

datatype blob = Blob (mimeType: string) (data: string)

datatype resp_part = Part (part_text: "string option") (inlineData: "blob option")

datatype content = Content (parts: "resp_part list option")

datatype candidate = Candidate (content: "content option")

datatype response = Response (candidates: "candidate list option")

text \<open>
  A value caught by \<open>catch (error)\<close>: an \<open>Error\<close> instance with its message, or any
  other value, carried as the result of \<open>JSON.stringify\<close> on it (\<open>None\<close> when that
  yields no string).
\<close>

datatype thrown = ErrorInstance string | NonError "string option"

text \<open>One call of \<open>ai.models.generateContent\<close> resolves with a response or rejects.\<close>

datatype outcome = Resolves response | Rejects thrown

text \<open>What a function of the service raises: \<open>new Error(message)\<close>, or the runtime's
  \<open>TypeError\<close> on a method call on \<open>undefined\<close> (carrying the name of the method).\<close>

datatype js_error = JsError string | JsTypeError string

text \<open>
  The world outside the service: the log of the contents sent to the model, one entry
  per invocation, and the log of the suspensions (\<open>setTimeout\<close> delays, in ms).
\<close>

record world =
  requests :: "req_part list list"
  sleeps :: "nat list"

text \<open>The model is a black box: the outcome of its \<open>k\<close>-th invocation (counted from 1
  over the whole run) on the contents sent.\<close>

type_synonym model_api = "nat \<Rightarrow> req_part list \<Rightarrow> outcome"

section \<open>callGeminiImageApi\<close>

definition maxRetries :: nat where
  "maxRetries = 3"

definition initialDelay :: nat where
  "initialDelay = 1500"

definition noImageMessage :: string where
  "noImageMessage = ''The AI model responded without an image.''"

text \<open>\<open>response.candidates?.[0]?.content?.parts?.find(part => part.inlineData)\<close>\<close>

definition imagePart :: "response \<Rightarrow> resp_part option" where
  "imagePart r =
     (case candidates r of
        None \<Rightarrow> None
      | Some cs \<Rightarrow>
          (case js_index cs 0 of
             None \<Rightarrow> None
           | Some c \<Rightarrow>
               (case content c of
                  None \<Rightarrow> None
                | Some ct \<Rightarrow>
                    (case parts ct of
                       None \<Rightarrow> None
                     | Some ps \<Rightarrow> List.find (\<lambda>p. inlineData p \<noteq> None) ps))))"

text \<open>The template \<open>data:${mimeType};base64,${data}\<close>.\<close>

definition dataUrl :: "blob \<Rightarrow> string" where
  "dataUrl b = ''data:'' @ mimeType b @ '';base64,'' @ data b"

text \<open>The body of the \<open>try\<close> block after the call: the data URL, or what is thrown
  into the \<open>catch\<close>.\<close>

definition tryBlock :: "outcome \<Rightarrow> thrown + string" where
  "tryBlock out =
     (case out of
        Rejects e \<Rightarrow> Inl e
      | Resolves r \<Rightarrow>
          (case imagePart r of
             None \<Rightarrow> Inl (ErrorInstance noImageMessage)
           | Some p \<Rightarrow>
               (case inlineData p of
                  None \<Rightarrow> Inl (ErrorInstance noImageMessage)
                | Some b \<Rightarrow> Inr (dataUrl b))))"

text \<open>\<open>error instanceof Error ? error.message : JSON.stringify(error)\<close>\<close>

definition errorMessage :: "thrown \<Rightarrow> string option" where
  "errorMessage e = (case e of ErrorInstance m \<Rightarrow> Some m | NonError j \<Rightarrow> j)"

definition isRetryable :: "string \<Rightarrow> bool" where
  "isRetryable m =
     (js_includes m ''429'' \<or> js_includes m ''500'' \<or> js_includes m ''INTERNAL'')"

text \<open>\<open>error instanceof Error ? error.message : "Failed to generate image."\<close>\<close>

definition rethrownMessage :: "thrown \<Rightarrow> string" where
  "rethrownMessage e =
     (case e of ErrorInstance m \<Rightarrow> m | NonError j \<Rightarrow> ''Failed to generate image.'')"

text \<open>\<open>initialDelay * Math.pow(2, attempt - 1)\<close>; the loop starts at attempt 1, and the
  product is a small integer, which the floating-point arithmetic gives exactly.\<close>

definition delay :: "nat \<Rightarrow> nat" where
  "delay attempt = initialDelay * 2 ^ (attempt - 1)"

text \<open>How control leaves the \<open>for\<close> loop: by the \<open>return\<close>, by a \<open>throw\<close> out of
  the \<open>catch\<close> block, or by the loop condition becoming false.\<close>

datatype loop_exit = Returned string | Threw js_error | LoopEnded

text \<open>
  The loop \<open>for (let attempt = 1; attempt <= maxRetries; attempt++)\<close>, from a given
  value of \<open>attempt\<close>. Each iteration sends the contents once. When
  \<open>JSON.stringify\<close> gives no string, \<open>errorMessage.includes\<close> raises a
  \<open>TypeError\<close> that leaves the \<open>catch\<close> block. The \<open>console.error\<close> line only
  logs and is left out.
\<close>

function attempt_loop :: "model_api \<Rightarrow> req_part list \<Rightarrow> nat \<Rightarrow> world \<Rightarrow> loop_exit \<times> world" where
  "attempt_loop api ps attempt w =
     (if attempt \<le> maxRetries then
        (let w1 = w\<lparr>requests := requests w @ [ps]\<rparr> in
         case tryBlock (api (length (requests w1)) ps) of
           Inr url \<Rightarrow> (Returned url, w1)
         | Inl e \<Rightarrow>
             (case errorMessage e of
                None \<Rightarrow> (Threw (JsTypeError ''includes''), w1)
              | Some m \<Rightarrow>
                  if isRetryable m \<and> attempt < maxRetries
                  then attempt_loop api ps (attempt + 1)
                         (w1\<lparr>sleeps := sleeps w1 @ [delay attempt]\<rparr>)
                  else (Threw (JsError (rethrownMessage e)), w1)))
      else (LoopEnded, w))"
  by pat_completeness auto
termination
  by (relation "measure (\<lambda>(api, ps, attempt, w). Suc maxRetries - attempt)") auto

definition callGeminiImageApi :: "model_api \<Rightarrow> req_part list \<Rightarrow> world \<Rightarrow> (js_error + string) \<times> world" where
  "callGeminiImageApi api ps w =
     (case attempt_loop api ps 1 w of
        (Returned url, w') \<Rightarrow> (Inr url, w')
      | (Threw e, w') \<Rightarrow> (Inl e, w')
      | (LoopEnded, w') \<Rightarrow> (Inl (JsError ''Maximum retries exceeded.''), w'))"

section \<open>generateWatercolourPainting and editWatercolourPainting\<close>

text \<open>The template of \<open>generateWatercolourPainting\<close> is its opening words, the place
  name, and the fixed stylistic requests that follow it.\<close>

definition generateOpening :: string where
  \<open>generateOpening = ''A breathtaking, high-quality traditional watercolor painting of ''\<close>

definition generateStyle :: string where
  \<open>generateStyle =
     ''. \<newline>'' @
     ''    The style should feature artistic brushstrokes, gentle color bleeds, and visible paper texture. \<newline>'' @
     ''    Focus on capturing the iconic essence and atmosphere of the location. \<newline>'' @
     ''    Add a subtle, elegant artist signature that says "Gemini" in the bottom right corner.\<newline>'' @
     ''    Ensure the composition is balanced and the colors are vibrant yet natural.''\<close>

definition generatePrompt :: "string \<Rightarrow> string" where
  "generatePrompt placeName = generateOpening @ placeName @ generateStyle"

definition generateWatercolourPainting :: "model_api \<Rightarrow> string \<Rightarrow> world \<Rightarrow> (js_error + string) \<times> world" where
  "generateWatercolourPainting api placeName w =
     callGeminiImageApi api [TextPart (generatePrompt placeName)] w"

text \<open>The template of \<open>editWatercolourPainting\<close>.\<close>

definition editPromptText :: "string \<Rightarrow> string \<Rightarrow> string" where
  \<open>editPromptText editPrompt originalPlace =
     ''Modify this watercolor painting of '' @ originalPlace @ ''. \<newline>'' @
     ''    Your instruction is: "'' @ editPrompt @ ''". \<newline>'' @
     ''    Maintain the existing artistic watercolor style, brushstrokes, and paper texture. \<newline>'' @
     ''    Keep the core composition of '' @ originalPlace @ '' but apply the changes requested.\<newline>'' @
     ''    Ensure the result remains a beautiful, cohesive watercolor masterpiece.\<newline>'' @
     ''    Ensure the signature "Gemini" remains in the bottom right corner.''\<close>

text \<open>\<open>base64ImageDataUrl.split(',')[1]\<close>\<close>

definition base64Data_of :: "string \<Rightarrow> string option" where
  "base64Data_of base64ImageDataUrl = js_index (js_split (CHR '','') base64ImageDataUrl) 1"

text \<open>\<open>base64ImageDataUrl.split(';')[0].split(':')[1]\<close>: the second \<open>split\<close> is a
  method call on the result of \<open>[0]\<close> and would raise a \<open>TypeError\<close> on
  \<open>undefined\<close>.\<close>

definition mimeType_of :: "string \<Rightarrow> js_error + string option" where
  "mimeType_of base64ImageDataUrl =
     (case js_index (js_split (CHR '';'') base64ImageDataUrl) 0 of
        None \<Rightarrow> Inl (JsTypeError ''split'')
      | Some h \<Rightarrow> Inr (js_index (js_split (CHR '':'') h) 1))"

definition editWatercolourPainting ::
    "model_api \<Rightarrow> string \<Rightarrow> string \<Rightarrow> string \<Rightarrow> world \<Rightarrow> (js_error + string) \<times> world" where
  "editWatercolourPainting api base64ImageDataUrl editPrompt originalPlace w =
     (let base64Data = base64Data_of base64ImageDataUrl in
      case mimeType_of base64ImageDataUrl of
        Inl e \<Rightarrow> (Inl e, w)
      | Inr mimeType' \<Rightarrow>
          callGeminiImageApi api
            [InlineDataPart base64Data mimeType',
             TextPart (editPromptText editPrompt originalPlace)] w)"

section \<open>The component App: state and handlers\<close>

text \<open>\<open>s.trim()\<close> strips white space and line terminators from both ends. A character
  of the model is a code unit below 256; of the code units that \<open>trim\<close> strips, those
  in that range are the tab, the line feed, the vertical tab, the form feed, the
  carriage return, the space and the no-break space.\<close>

definition js_whitespace :: "char \<Rightarrow> bool" where
  "js_whitespace c =
     (c \<in> set [CHR 0x09, CHR 0x0A, CHR 0x0B, CHR 0x0C, CHR 0x0D, CHR 0x20, CHR 0xA0])"

definition js_trim :: "string \<Rightarrow> string" where
  "js_trim s = rev (dropWhile js_whitespace (rev (dropWhile js_whitespace s)))"

text \<open>\<open>err.message\<close> of what the service raises; the wording of the \<open>TypeError\<close> is
  the engine's (V8).\<close>

definition message_of :: "js_error \<Rightarrow> string" where
  "message_of err =
     (case err of
        JsError m \<Rightarrow> m
      | JsTypeError m \<Rightarrow>
          ''Cannot read properties of undefined (reading '' @ [CHR 0x27] @ m @ [CHR 0x27] @ '')'')"

text \<open>The \<open>useState\<close> cells of the component that the handlers read and write.\<close>

record app =
  place :: string
  editPrompt :: string
  error :: "string option"
  isLoading :: bool
  isEditing :: bool
  watercolourPainting :: string

definition initial_app :: app where
  "initial_app =
     \<lparr>place = [], editPrompt = [], error = None, isLoading = False, isEditing = False,
      watercolourPainting = []\<rparr>"

text \<open>
  A handler runs from the submit to the end of its \<open>finally\<close> block as one step: while
  it awaits, every control that could start another handler or change \<open>place\<close> is
  disabled or not rendered.
\<close>

definition handleGenerate :: "model_api \<Rightarrow> app \<times> world \<Rightarrow> app \<times> world" where
  "handleGenerate api sw =
     (case sw of (st, w) \<Rightarrow>
        (let targetPlace = js_trim (place st) in
         if targetPlace = [] then
           (st\<lparr>error := Some ''Please enter a place or description.''\<rparr>, w)
         else
           (let st1 = st\<lparr>isLoading := True, error := None, watercolourPainting := [],
                          editPrompt := []\<rparr> in
            case generateWatercolourPainting api targetPlace w of
              (Inr paintingDataUrl, w') \<Rightarrow>
                (st1\<lparr>watercolourPainting := paintingDataUrl, isLoading := False\<rparr>, w')
            | (Inl err, w') \<Rightarrow>
                (st1\<lparr>error := Some (message_of err), isLoading := False\<rparr>, w'))))"

definition handleEdit :: "model_api \<Rightarrow> app \<times> world \<Rightarrow> app \<times> world" where
  "handleEdit api sw =
     (case sw of (st, w) \<Rightarrow>
        if js_trim (editPrompt st) = [] \<or> watercolourPainting st = [] then (st, w)
        else
          (let st1 = st\<lparr>isEditing := True, error := None\<rparr> in
           case editWatercolourPainting api (watercolourPainting st) (editPrompt st) (place st) w of
             (Inr refinedPainting, w') \<Rightarrow>
               (st1\<lparr>watercolourPainting := refinedPainting, editPrompt := [],
                    isEditing := False\<rparr>, w')
           | (Inl err, w') \<Rightarrow>
               (st1\<lparr>error := Some (message_of err), isEditing := False\<rparr>, w')))"

text \<open>What the user can do to the place field and the two forms, with the
  \<open>disabled\<close> attributes and the conditional rendering of the refinement form as
  guards. The suggestion buttons (which fill the place field and press Paint) and the
  download button are left out.\<close>

datatype event =
    ChangePlace string
  | ChangeEditPrompt string
  | SubmitGenerate
  | SubmitEdit

definition step :: "model_api \<Rightarrow> event \<Rightarrow> app \<times> world \<Rightarrow> app \<times> world" where
  "step api ev sw =
     (case sw of (st, w) \<Rightarrow>
        (case ev of
           ChangePlace s \<Rightarrow>
             if isLoading st \<or> isEditing st then (st, w) else (st\<lparr>place := s\<rparr>, w)
         | ChangeEditPrompt s \<Rightarrow>
             if watercolourPainting st \<noteq> [] \<and> \<not> isLoading st \<and> \<not> isEditing st
             then (st\<lparr>editPrompt := s\<rparr>, w) else (st, w)
         | SubmitGenerate \<Rightarrow>
             if isLoading st \<or> isEditing st \<or> js_trim (place st) = [] then (st, w)
             else handleGenerate api (st, w)
         | SubmitEdit \<Rightarrow>
             if watercolourPainting st \<noteq> [] \<and> \<not> isLoading st \<and> \<not> isEditing st
                \<and> js_trim (editPrompt st) \<noteq> []
             then handleEdit api (st, w) else (st, w)))"

definition run :: "model_api \<Rightarrow> event list \<Rightarrow> app \<times> world \<Rightarrow> app \<times> world" where
  "run api evs sw = foldl (\<lambda>s ev. step api ev s) sw evs"

section \<open>Notions used to state the properties\<close>

text \<open>A candidate contains inline image data: its content has a part with
  \<open>inlineData\<close>. A response contains inline image data when one of its candidates
  does; the first candidate does when the response has candidates and the first of
  them contains an image.\<close>

definition candidate_has_image :: "candidate \<Rightarrow> bool" where
  "candidate_has_image c =
     (case content c of
        None \<Rightarrow> False
      | Some ct \<Rightarrow>
          (case parts ct of
             None \<Rightarrow> False
           | Some ps \<Rightarrow> list_ex (\<lambda>p. inlineData p \<noteq> None) ps))"

definition response_has_image :: "response \<Rightarrow> bool" where
  "response_has_image r =
     (case candidates r of None \<Rightarrow> False | Some cs \<Rightarrow> list_ex candidate_has_image cs)"

definition first_candidate_has_image :: "response \<Rightarrow> bool" where
  "first_candidate_has_image r =
     (case candidates r of
        None \<Rightarrow> False
      | Some [] \<Rightarrow> False
      | Some (c # cs) \<Rightarrow> candidate_has_image c)"

text \<open>A text carries a retryable marker: it contains \<open>429\<close>, \<open>500\<close> or
  \<open>INTERNAL\<close> as a contiguous block.\<close>

abbreviation has_retry_marker :: "string \<Rightarrow> bool" where
  "has_retry_marker t \<equiv>
     (\<exists>a b. t = a @ ''429'' @ b) \<or> (\<exists>a b. t = a @ ''500'' @ b)
     \<or> (\<exists>a b. t = a @ ''INTERNAL'' @ b)"

text \<open>The four requests that make up the stylistic part of the Generate template, as
  they stand in the template of \<open>generateWatercolourPainting\<close>.\<close>

definition styleBrushwork :: string where
  "styleBrushwork =
     ''The style should feature artistic brushstrokes, gentle color bleeds, and visible paper texture.''"

definition styleEssence :: string where
  "styleEssence = ''Focus on capturing the iconic essence and atmosphere of the location.''"

definition styleSignature :: string where
  \<open>styleSignature =
     ''Add a subtle, elegant artist signature that says "Gemini" in the bottom right corner.''\<close>

definition styleComposition :: string where
  "styleComposition =
     ''Ensure the composition is balanced and the colors are vibrant yet natural.''"

definition styleRequests :: "string list" where
  "styleRequests = [styleBrushwork, styleEssence, styleSignature, styleComposition]"

text \<open>The number of positions of \<open>s\<close> at which \<open>sub\<close> starts.\<close>

fun count_occurrences :: "string \<Rightarrow> string \<Rightarrow> nat" where
  "count_occurrences [] sub = (if sub = [] then 1 else 0)"
| "count_occurrences (x # xs) sub =
     (if prefix sub (x # xs) then 1 else 0) + count_occurrences xs sub"

text \<open>No non-empty end of \<open>xs\<close> begins \<open>r\<close> or begins with \<open>r\<close>.\<close>

fun clear_of :: "string \<Rightarrow> string \<Rightarrow> bool" where
  "clear_of [] r = True"
| "clear_of (x # xs) r =
     (\<not> prefix (x # xs) r \<and> \<not> prefix r (x # xs) \<and> clear_of xs r)"

text \<open>The lengths of the non-empty suffixes of \<open>t\<close> that \<open>s\<close> starts with.\<close>

fun suffix_borders :: "string \<Rightarrow> string \<Rightarrow> nat list" where
  "suffix_borders s [] = []"
| "suffix_borders s (x # xs) =
     (if prefix (x # xs) s then [length (x # xs)] else []) @ suffix_borders s xs"

section \<open>Concrete runs\<close>

definition empty_world :: world where
  "empty_world = \<lparr>requests = [], sleeps = []\<rparr>"

definition png_response :: response where
  "png_response =
     Response (Some [Candidate (Some (Content (Some
       [Part (Some ''Here is your painting'') None,
        Part None (Some (Blob ''image/png'' ''QUJD''))])))])"

definition image_in_second_candidate :: response where
  "image_in_second_candidate =
     Response (Some
       [Candidate (Some (Content (Some [Part (Some ''Here is your painting'') None]))),
        Candidate (Some (Content (Some [Part None (Some (Blob ''image/png'' ''QUJD''))])))])"

definition always_paints :: model_api where
  "always_paints k ps = Resolves png_response"

definition rate_limited_twice :: model_api where
  "rate_limited_twice k ps =
     (if k < 3 then Rejects (ErrorInstance ''429 Too Many Requests'')
      else Resolves png_response)"

definition server_error_500 :: model_api where
  "server_error_500 k ps = Rejects (ErrorInstance ''500 Internal Server Error'')"

text \<open>A model call that rejects with the string \<open>"500"\<close>, not an \<open>Error\<close>:
  \<open>JSON.stringify\<close> puts it in double quotes.\<close>

definition rejects_with_string_500 :: model_api where
  \<open>rejects_with_string_500 k ps = Rejects (NonError (Some ''"500"''))\<close>

text \<open>A model call that rejects with the object \<open>{code: 429}\<close>, not an \<open>Error\<close>.\<close>

definition rejects_with_object_429 :: model_api where
  \<open>rejects_with_object_429 k ps = Rejects (NonError (Some ''{"code":429}''))\<close>

definition unauthorized :: model_api where
  "unauthorized k ps = Rejects (ErrorInstance ''401 unauthorized'')"

text \<open>A model that answers without candidates.\<close>

definition answers_without_image :: model_api where
  "answers_without_image k ps = Resolves (Response None)"

text \<open>The user paints Paris, retypes the place field without painting again, and
  refines the picture.\<close>

definition retyped_place_session :: "event list" where
  "retyped_place_session =
     [ChangePlace ''Paris'', SubmitGenerate, ChangePlace ''Tokyo'',
      ChangeEditPrompt ''Add a boat'', SubmitEdit]"

text \<open>A place description, on one line, into which the first stylistic request was
  typed, and the session that paints it.\<close>

definition one_line_pasted_place :: string where
  "one_line_pasted_place =
     ''Paris. The style should feature artistic brushstrokes, gentle color bleeds, and visible paper texture.''"

definition pasted_place_session :: "event list" where
  "pasted_place_session = [ChangePlace one_line_pasted_place, SubmitGenerate]"

section \<open>Strings\<close>

lemma js_includes_sublist: "js_includes s sub = sublist sub s"
  by (induction s) (auto simp: sublist_Cons_right)

lemma js_includes_iff: "js_includes s sub \<longleftrightarrow> (\<exists>a b. s = a @ sub @ b)"
  by (simp add: js_includes_sublist sublist_def)

lemma includes_here: "js_includes (sub @ b) sub"
  unfolding js_includes_iff by (intro exI [of _ "[]"] exI [of _ b]) simp

lemma includes_skip: "js_includes s sub \<Longrightarrow> js_includes (a @ s) sub"
  unfolding js_includes_iff by (metis append.assoc)

lemma js_split_nonempty: "js_split c s \<noteq> []"
  by (induction s) (auto split: list.splits)

lemma js_split_no_sep: "c \<notin> set a \<Longrightarrow> js_split c a = [a]"
  by (induction a) auto

lemma js_split_first: "c \<notin> set a \<Longrightarrow> js_split c (a @ c # rest) = a # js_split c rest"
  by (induction a) auto

section \<open>The retry loop, one iteration at a time\<close>

declare attempt_loop.simps [simp del]

lemma loop_returns:
  assumes "attempt \<le> maxRetries"
    and "tryBlock (api (Suc (length (requests w))) ps) = Inr url"
  shows "attempt_loop api ps attempt w = (Returned url, w\<lparr>requests := requests w @ [ps]\<rparr>)"
  using assms by (subst attempt_loop.simps) (simp add: Let_def)

lemma loop_retries:
  assumes "attempt < maxRetries"
    and "tryBlock (api (Suc (length (requests w))) ps) = Inl e"
    and "errorMessage e = Some m" and "isRetryable m"
  shows "attempt_loop api ps attempt w =
           attempt_loop api ps (Suc attempt)
             (w\<lparr>requests := requests w @ [ps], sleeps := sleeps w @ [delay attempt]\<rparr>)"
  using assms by (subst attempt_loop.simps) (simp add: Let_def)

lemma loop_rethrows:
  assumes "attempt \<le> maxRetries"
    and "tryBlock (api (Suc (length (requests w))) ps) = Inl e"
    and "errorMessage e = Some m" and "\<not> (isRetryable m \<and> attempt < maxRetries)"
  shows "attempt_loop api ps attempt w =
           (Threw (JsError (rethrownMessage e)), w\<lparr>requests := requests w @ [ps]\<rparr>)"
  using assms by (subst attempt_loop.simps) (auto simp add: Let_def)

lemma loop_type_error:
  assumes "attempt \<le> maxRetries"
    and "tryBlock (api (Suc (length (requests w))) ps) = Inl e"
    and "errorMessage e = None"
  shows "attempt_loop api ps attempt w =
           (Threw (JsTypeError ''includes''), w\<lparr>requests := requests w @ [ps]\<rparr>)"
  using assms by (subst attempt_loop.simps) (simp add: Let_def)

lemma delay_1: "delay (Suc 0) = 1500"
  by (simp add: delay_def initialDelay_def)

lemma delay_2: "delay 2 = 3000"
  by (simp add: delay_def initialDelay_def)

text \<open>Two retryable failures bring the loop to its third iteration.\<close>

lemma loop_two_retries:
  assumes "tryBlock (api (length (requests w) + 1) ps) = Inl e1"
    and "errorMessage e1 = Some m1" and "isRetryable m1"
    and "tryBlock (api (length (requests w) + 2) ps) = Inl e2"
    and "errorMessage e2 = Some m2" and "isRetryable m2"
  shows "attempt_loop api ps 1 w =
           attempt_loop api ps 3
             (w\<lparr>requests := requests w @ [ps, ps], sleeps := sleeps w @ [1500, 3000]\<rparr>)"
proof -
  let ?w1 = "w\<lparr>requests := requests w @ [ps], sleeps := sleeps w @ [delay 1]\<rparr>"
  let ?w2 = "?w1\<lparr>requests := requests ?w1 @ [ps], sleeps := sleeps ?w1 @ [delay 2]\<rparr>"
  have s1: "attempt_loop api ps 1 w = attempt_loop api ps 2 ?w1"
    using loop_retries [of 1 api w ps e1 m1] assms(1-3)
    by (simp add: maxRetries_def numeral_2_eq_2)
  have s2: "attempt_loop api ps 2 ?w1 = attempt_loop api ps 3 ?w2"
    using loop_retries [of 2 api ?w1 ps e2 m2] assms(4-6)
    by (simp add: maxRetries_def numeral_3_eq_3 numeral_2_eq_2)
  have "?w2 = w\<lparr>requests := requests w @ [ps, ps], sleeps := sleeps w @ [1500, 3000]\<rparr>"
    by (simp add: delay_1 delay_2)
  with s1 s2 show ?thesis by simp
qed

lemma loop_third_attempt_fails:
  assumes "tryBlock (api (length (requests w) + 1) ps) = Inl e1"
    and "errorMessage e1 = Some m1" and "isRetryable m1"
    and "tryBlock (api (length (requests w) + 2) ps) = Inl e2"
    and "errorMessage e2 = Some m2" and "isRetryable m2"
    and "tryBlock (api (length (requests w) + 3) ps) = Inl e3"
    and "errorMessage e3 = Some m3"
  shows "attempt_loop api ps 1 w =
           (Threw (JsError (rethrownMessage e3)),
            w\<lparr>requests := requests w @ [ps, ps, ps], sleeps := sleeps w @ [1500, 3000]\<rparr>)"
proof -
  let ?w2 = "w\<lparr>requests := requests w @ [ps, ps], sleeps := sleeps w @ [1500, 3000]\<rparr>"
  have "attempt_loop api ps 3 ?w2 =
          (Threw (JsError (rethrownMessage e3)), ?w2\<lparr>requests := requests ?w2 @ [ps]\<rparr>)"
    using loop_rethrows [of 3 api ?w2 ps e3 m3] assms(7,8)
    by (simp add: maxRetries_def numeral_3_eq_3)
  then show ?thesis
    using loop_two_retries [of api w ps e1 m1 e2 m2] assms(1-6) by simp
qed

lemma loop_requests:
  "\<exists>n. requests (snd (attempt_loop api ps attempt w)) = requests w @ replicate n ps
       \<and> (attempt \<le> maxRetries \<longrightarrow> 0 < n)"
proof (induction api ps attempt w rule: attempt_loop.induct)
  case (1 api ps attempt w)
  show ?case
  proof (cases "attempt \<le> maxRetries")
    case False
    then show ?thesis by (subst attempt_loop.simps) simp
  next
    case True
    let ?w1 = "w\<lparr>requests := requests w @ [ps]\<rparr>"
    show ?thesis
    proof (cases "tryBlock (api (Suc (length (requests w))) ps)")
      case (Inr url)
      then have "attempt_loop api ps attempt w = (Returned url, ?w1)"
        using True by (intro loop_returns)
      then have "requests (snd (attempt_loop api ps attempt w)) = requests w @ replicate 1 ps"
        by simp
      then show ?thesis by blast
    next
      case (Inl e)
      show ?thesis
      proof (cases "errorMessage e")
        case None
        then have "attempt_loop api ps attempt w = (Threw (JsTypeError ''includes''), ?w1)"
          using True Inl by (intro loop_type_error)
        then have "requests (snd (attempt_loop api ps attempt w)) = requests w @ replicate 1 ps"
          by simp
        then show ?thesis by blast
      next
        case (Some m)
        show ?thesis
        proof (cases "isRetryable m \<and> attempt < maxRetries")
          case False
          then have "attempt_loop api ps attempt w = (Threw (JsError (rethrownMessage e)), ?w1)"
            using True Inl Some by (intro loop_rethrows) auto
          then have "requests (snd (attempt_loop api ps attempt w)) = requests w @ replicate 1 ps"
            by simp
          then show ?thesis by blast
        next
          case t: True
          let ?w2 = "?w1\<lparr>sleeps := sleeps ?w1 @ [delay attempt]\<rparr>"
          from "1.IH" [OF True refl _ _ t, of e] Inl Some
          obtain n where n:
            "requests (snd (attempt_loop api ps (attempt + 1) ?w2)) = requests ?w2 @ replicate n ps"
            by auto
          have "attempt_loop api ps attempt w = attempt_loop api ps (Suc attempt) ?w2"
            using loop_retries [of attempt api w ps e m] t Inl Some by simp
          with n have
            "requests (snd (attempt_loop api ps attempt w)) = requests w @ replicate (Suc n) ps"
            by (simp add: replicate_append_same)
          then show ?thesis by blast
        qed
      qed
    qed
  qed
qed

lemma call_requests:
  "\<exists>n. requests (snd (callGeminiImageApi api ps w)) = requests w @ replicate (Suc n) ps"
proof -
  obtain n where n: "requests (snd (attempt_loop api ps 1 w)) = requests w @ replicate n ps" "0 < n"
    using loop_requests [of api ps 1 w] by (auto simp: maxRetries_def)
  then obtain k where "n = Suc k" by (cases n) auto
  moreover have "snd (callGeminiImageApi api ps w) = snd (attempt_loop api ps 1 w)"
    by (simp add: callGeminiImageApi_def split: prod.splits loop_exit.splits)
  ultimately show ?thesis using n by auto
qed

lemma tryBlock_failure_is_no_image:
  "tryBlock (Resolves r) = Inl e \<Longrightarrow> e = ErrorInstance noImageMessage"
  by (auto simp: tryBlock_def split: option.splits)

lemma noImage_not_retryable: "\<not> isRetryable noImageMessage"
  by (simp add: isRetryable_def noImageMessage_def)

lemma tryBlock_png: "tryBlock (Resolves png_response) = Inr ''data:image/png;base64,QUJD''"
  by (simp add: png_response_def tryBlock_def imagePart_def dataUrl_def)

section \<open>The retry policy\<close>

text \<open>
  C1. A caught failure is classified by its message text: an \<open>Error\<close> by its own
  message, any other thrown value by its \<open>JSON.stringify\<close> text. It is retryable exactly
  when that text contains \<open>429\<close>, \<open>500\<close> or \<open>INTERNAL\<close>. On an attempt that fails,
  the loop goes on to the next attempt, after suspending, only for a retryable failure
  with an attempt left; every other failure leaves the loop at once with an error, after
  that one invocation and with no suspension, and so does a failure that has no text.
  The only failure of an attempt whose call resolved is the no-image error, whose
  message contains none of the markers.
\<close>

theorem retry_classification:
  "(isRetryable t \<longleftrightarrow> has_retry_marker t)
   \<and> (tryBlock (Resolves r) = Inl e' \<longrightarrow> e' = ErrorInstance noImageMessage)
   \<and> \<not> has_retry_marker noImageMessage
   \<and> (attempt \<le> maxRetries
        \<and> tryBlock (api (Suc (length (requests w))) ps) = Inl (ErrorInstance m) \<longrightarrow>
        attempt_loop api ps attempt w =
          (if has_retry_marker m \<and> attempt < maxRetries
           then attempt_loop api ps (Suc attempt)
                  (w\<lparr>requests := requests w @ [ps],
                     sleeps := sleeps w @ [1500 * 2 ^ (attempt - 1)]\<rparr>)
           else (Threw (JsError m), w\<lparr>requests := requests w @ [ps]\<rparr>)))
   \<and> (attempt \<le> maxRetries
        \<and> tryBlock (api (Suc (length (requests w))) ps) = Inl (NonError (Some j)) \<longrightarrow>
        attempt_loop api ps attempt w =
          (if has_retry_marker j \<and> attempt < maxRetries
           then attempt_loop api ps (Suc attempt)
                  (w\<lparr>requests := requests w @ [ps],
                     sleeps := sleeps w @ [1500 * 2 ^ (attempt - 1)]\<rparr>)
           else (Threw (JsError ''Failed to generate image.''),
                 w\<lparr>requests := requests w @ [ps]\<rparr>)))
   \<and> (attempt \<le> maxRetries
        \<and> tryBlock (api (Suc (length (requests w))) ps) = Inl (NonError None) \<longrightarrow>
        attempt_loop api ps attempt w =
          (Threw (JsTypeError ''includes''), w\<lparr>requests := requests w @ [ps]\<rparr>))"
proof -
  have marker: "isRetryable x \<longleftrightarrow> has_retry_marker x" for x
    unfolding isRetryable_def js_includes_iff ..
  have step: "attempt_loop api ps attempt w =
      (if has_retry_marker x \<and> attempt < maxRetries
       then attempt_loop api ps (Suc attempt)
              (w\<lparr>requests := requests w @ [ps],
                 sleeps := sleeps w @ [1500 * 2 ^ (attempt - 1)]\<rparr>)
       else (Threw (JsError (rethrownMessage e)), w\<lparr>requests := requests w @ [ps]\<rparr>))"
    if a: "attempt \<le> maxRetries" "tryBlock (api (Suc (length (requests w))) ps) = Inl e"
      "errorMessage e = Some x" for e x
  proof (cases "isRetryable x \<and> attempt < maxRetries")
    case True
    then have "attempt_loop api ps attempt w =
        attempt_loop api ps (Suc attempt)
          (w\<lparr>requests := requests w @ [ps], sleeps := sleeps w @ [delay attempt]\<rparr>)"
      using a by (intro loop_retries [of attempt api w ps e x]) auto
    then show ?thesis
      using True marker [of x] by (simp add: delay_def initialDelay_def)
  next
    case False
    then have "attempt_loop api ps attempt w =
        (Threw (JsError (rethrownMessage e)), w\<lparr>requests := requests w @ [ps]\<rparr>)"
      using a by (intro loop_rethrows [of attempt api w ps e x]) auto
    then show ?thesis
      using False marker [of x] by auto
  qed
  show ?thesis
  proof (intro conjI impI)
    show "isRetryable t \<longleftrightarrow> has_retry_marker t" by (rule marker)
  next
    assume "tryBlock (Resolves r) = Inl e'"
    then show "e' = ErrorInstance noImageMessage" by (rule tryBlock_failure_is_no_image)
  next
    show "\<not> has_retry_marker noImageMessage"
      using noImage_not_retryable marker [of noImageMessage] by blast
  next
    assume "attempt \<le> maxRetries
        \<and> tryBlock (api (Suc (length (requests w))) ps) = Inl (ErrorInstance m)"
    then show "attempt_loop api ps attempt w =
          (if has_retry_marker m \<and> attempt < maxRetries
           then attempt_loop api ps (Suc attempt)
                  (w\<lparr>requests := requests w @ [ps],
                     sleeps := sleeps w @ [1500 * 2 ^ (attempt - 1)]\<rparr>)
           else (Threw (JsError m), w\<lparr>requests := requests w @ [ps]\<rparr>))"
      using step [of "ErrorInstance m" m] by (simp add: errorMessage_def rethrownMessage_def)
  next
    assume "attempt \<le> maxRetries
        \<and> tryBlock (api (Suc (length (requests w))) ps) = Inl (NonError (Some j))"
    then show "attempt_loop api ps attempt w =
          (if has_retry_marker j \<and> attempt < maxRetries
           then attempt_loop api ps (Suc attempt)
                  (w\<lparr>requests := requests w @ [ps],
                     sleeps := sleeps w @ [1500 * 2 ^ (attempt - 1)]\<rparr>)
           else (Threw (JsError ''Failed to generate image.''),
                 w\<lparr>requests := requests w @ [ps]\<rparr>))"
      using step [of "NonError (Some j)" j]
      by (simp add: errorMessage_def rethrownMessage_def)
  next
    assume "attempt \<le> maxRetries
        \<and> tryBlock (api (Suc (length (requests w))) ps) = Inl (NonError None)"
    then show "attempt_loop api ps attempt w =
          (Threw (JsTypeError ''includes''), w\<lparr>requests := requests w @ [ps]\<rparr>)"
      using loop_type_error [of attempt api w ps "NonError None"]
      by (simp add: errorMessage_def)
  qed
qed

theorem retry_classification_witness:
  \<open>attempt_loop rate_limited_twice [TextPart ''x''] 1 empty_world =
     attempt_loop rate_limited_twice [TextPart ''x''] 2
       \<lparr>requests = [[TextPart ''x'']], sleeps = [1500]\<rparr>
   \<and> attempt_loop rejects_with_object_429 [TextPart ''x''] 1 empty_world =
       attempt_loop rejects_with_object_429 [TextPart ''x''] 2
         \<lparr>requests = [[TextPart ''x'']], sleeps = [1500]\<rparr>
   \<and> attempt_loop server_error_500 [TextPart ''x''] 3 empty_world =
       (Threw (JsError ''500 Internal Server Error''),
        \<lparr>requests = [[TextPart ''x'']], sleeps = []\<rparr>)
   \<and> attempt_loop unauthorized [TextPart ''x''] 1 empty_world =
       (Threw (JsError ''401 unauthorized''), \<lparr>requests = [[TextPart ''x'']], sleeps = []\<rparr>)
   \<and> attempt_loop answers_without_image [TextPart ''x''] 1 empty_world =
       (Threw (JsError noImageMessage), \<lparr>requests = [[TextPart ''x'']], sleeps = []\<rparr>)\<close>
proof -
  have r1: "isRetryable ''429 Too Many Requests''" by (simp add: isRetryable_def)
  have r2: \<open>isRetryable ''{"code":429}''\<close> by (simp add: isRetryable_def)
  have r3: "\<not> isRetryable ''401 unauthorized''" by (simp add: isRetryable_def)
  have t1: "tryBlock (rate_limited_twice (Suc (length (requests empty_world))) [TextPart ''x''])
              = Inl (ErrorInstance ''429 Too Many Requests'')"
    by (simp add: tryBlock_def rate_limited_twice_def empty_world_def)
  have t2: \<open>tryBlock (rejects_with_object_429 (Suc (length (requests empty_world))) [TextPart ''x''])
              = Inl (NonError (Some ''{"code":429}''))\<close>
    by (simp add: tryBlock_def rejects_with_object_429_def)
  have t3: "tryBlock (server_error_500 (Suc (length (requests empty_world))) [TextPart ''x''])
              = Inl (ErrorInstance ''500 Internal Server Error'')"
    by (simp add: tryBlock_def server_error_500_def)
  have t4: "tryBlock (unauthorized (Suc (length (requests empty_world))) [TextPart ''x''])
              = Inl (ErrorInstance ''401 unauthorized'')"
    by (simp add: tryBlock_def unauthorized_def)
  have t5: "tryBlock (answers_without_image (Suc (length (requests empty_world))) [TextPart ''x''])
              = Inl (ErrorInstance noImageMessage)"
    by (simp add: tryBlock_def answers_without_image_def imagePart_def)
  have a: "attempt_loop rate_limited_twice [TextPart ''x''] 1 empty_world =
     attempt_loop rate_limited_twice [TextPart ''x''] 2
       \<lparr>requests = [[TextPart ''x'']], sleeps = [1500]\<rparr>"
    using retry_classification [of "''429 Too Many Requests''" "Response None"
        "ErrorInstance noImageMessage" 1 rate_limited_twice empty_world "[TextPart ''x'']"
        "''429 Too Many Requests''" "[]"] r1 t1
    by (simp add: maxRetries_def empty_world_def numeral_2_eq_2)
  have b: \<open>attempt_loop rejects_with_object_429 [TextPart ''x''] 1 empty_world =
       attempt_loop rejects_with_object_429 [TextPart ''x''] 2
         \<lparr>requests = [[TextPart ''x'']], sleeps = [1500]\<rparr>\<close>
    using retry_classification [of \<open>''{"code":429}''\<close> "Response None"
        "ErrorInstance noImageMessage" 1 rejects_with_object_429 empty_world
        "[TextPart ''x'']" "[]" \<open>''{"code":429}''\<close>] r2 t2
    by (simp add: maxRetries_def empty_world_def numeral_2_eq_2)
  have c: "attempt_loop server_error_500 [TextPart ''x''] 3 empty_world =
       (Threw (JsError ''500 Internal Server Error''),
        \<lparr>requests = [[TextPart ''x'']], sleeps = []\<rparr>)"
    using retry_classification [of "[]" "Response None"
        "ErrorInstance noImageMessage" 3 server_error_500 empty_world "[TextPart ''x'']"
        "''500 Internal Server Error''" "[]"] t3
    by (simp add: maxRetries_def empty_world_def)
  have d: "attempt_loop unauthorized [TextPart ''x''] 1 empty_world =
       (Threw (JsError ''401 unauthorized''), \<lparr>requests = [[TextPart ''x'']], sleeps = []\<rparr>)"
    using retry_classification [of "''401 unauthorized''" "Response None"
        "ErrorInstance noImageMessage" 1 unauthorized empty_world "[TextPart ''x'']"
        "''401 unauthorized''" "[]"] r3 t4
    by (simp add: maxRetries_def empty_world_def)
  have e: "attempt_loop answers_without_image [TextPart ''x''] 1 empty_world =
       (Threw (JsError noImageMessage), \<lparr>requests = [[TextPart ''x'']], sleeps = []\<rparr>)"
    using retry_classification [of "[]" "Response None"
        "ErrorInstance noImageMessage" 1 answers_without_image empty_world "[TextPart ''x'']"
        noImageMessage "[]"] t5
    by (simp add: maxRetries_def empty_world_def)
  from a b c d e show ?thesis by blast
qed

text \<open>
  C2. When the first two attempts fail with retryable failures and the third attempt
  yields an image, the call returns that image; it has sent the contents exactly three
  times and has suspended exactly twice, for 1500 ms and then for 3000 ms.
\<close>

theorem retry_then_success:
  assumes "tryBlock (api (length (requests w) + 1) ps) = Inl e1"
    and "errorMessage e1 = Some m1" and "isRetryable m1"
    and "tryBlock (api (length (requests w) + 2) ps) = Inl e2"
    and "errorMessage e2 = Some m2" and "isRetryable m2"
    and "tryBlock (api (length (requests w) + 3) ps) = Inr img"
  shows "callGeminiImageApi api ps w =
           (Inr img,
            w\<lparr>requests := requests w @ [ps, ps, ps], sleeps := sleeps w @ [1500, 3000]\<rparr>)"
proof -
  let ?w2 = "w\<lparr>requests := requests w @ [ps, ps], sleeps := sleeps w @ [1500, 3000]\<rparr>"
  have "attempt_loop api ps 3 ?w2 = (Returned img, ?w2\<lparr>requests := requests ?w2 @ [ps]\<rparr>)"
    using loop_returns [of 3 api ?w2 ps img] assms(7)
    by (simp add: maxRetries_def numeral_3_eq_3)
  then have "attempt_loop api ps 1 w =
      (Returned img,
       w\<lparr>requests := requests w @ [ps, ps, ps], sleeps := sleeps w @ [1500, 3000]\<rparr>)"
    using loop_two_retries [of api w ps e1 m1 e2 m2] assms(1-6) by simp
  then show ?thesis unfolding callGeminiImageApi_def by simp
qed

theorem retry_then_success_witness:
  "isRetryable ''429 Too Many Requests''
   \<and> callGeminiImageApi rate_limited_twice [TextPart ''x''] empty_world =
       (Inr ''data:image/png;base64,QUJD'',
        \<lparr>requests = [[TextPart ''x''], [TextPart ''x''], [TextPart ''x'']],
           sleeps = [1500, 3000]\<rparr>)"
proof -
  have r: "isRetryable ''429 Too Many Requests''"
    by (simp add: isRetryable_def)
  have m: "errorMessage (ErrorInstance ''429 Too Many Requests'') = Some ''429 Too Many Requests''"
    by (simp add: errorMessage_def)
  have t1: "tryBlock (rate_limited_twice (length (requests empty_world) + 1) [TextPart ''x''])
              = Inl (ErrorInstance ''429 Too Many Requests'')"
    by (simp add: rate_limited_twice_def tryBlock_def empty_world_def)
  have t2: "tryBlock (rate_limited_twice (length (requests empty_world) + 2) [TextPart ''x''])
              = Inl (ErrorInstance ''429 Too Many Requests'')"
    by (simp add: rate_limited_twice_def tryBlock_def empty_world_def)
  have t3: "tryBlock (rate_limited_twice (length (requests empty_world) + 3) [TextPart ''x''])
              = Inr ''data:image/png;base64,QUJD''"
    by (simp add: rate_limited_twice_def tryBlock_png empty_world_def)
  show ?thesis
    using retry_then_success [of rate_limited_twice empty_world "[TextPart ''x'']"
        "ErrorInstance ''429 Too Many Requests''" "''429 Too Many Requests''"
        "ErrorInstance ''429 Too Many Requests''" "''429 Too Many Requests''"
        "''data:image/png;base64,QUJD''"] t1 t2 t3 m r
    by (simp add: empty_world_def)
qed

text \<open>
  C3 (as amended). When all three attempts fail with retryable failures, the call has
  sent the contents exactly three times, has suspended for 1500 ms and 3000 ms, and
  raises an error whose message is the message of the third failure when that failure
  is an \<open>Error\<close>, and the fixed text \<open>Failed to generate image.\<close> when it is any other
  thrown value.
\<close>

theorem retries_exhausted:
  assumes "tryBlock (api (length (requests w) + 1) ps) = Inl e1"
    and "errorMessage e1 = Some m1" and "isRetryable m1"
    and "tryBlock (api (length (requests w) + 2) ps) = Inl e2"
    and "errorMessage e2 = Some m2" and "isRetryable m2"
    and "tryBlock (api (length (requests w) + 3) ps) = Inl e3"
    and "errorMessage e3 = Some m3" and "isRetryable m3"
  shows "callGeminiImageApi api ps w =
           (Inl (JsError (case e3 of
                            ErrorInstance m \<Rightarrow> m
                          | NonError j \<Rightarrow> ''Failed to generate image.'')),
            w\<lparr>requests := requests w @ [ps, ps, ps], sleeps := sleeps w @ [1500, 3000]\<rparr>)"
proof -
  have "attempt_loop api ps 1 w =
          (Threw (JsError (rethrownMessage e3)),
           w\<lparr>requests := requests w @ [ps, ps, ps], sleeps := sleeps w @ [1500, 3000]\<rparr>)"
    using loop_third_attempt_fails [of api w ps e1 m1 e2 m2 e3 m3] assms(1-8) by simp
  then show ?thesis
    unfolding callGeminiImageApi_def by (simp add: rethrownMessage_def)
qed

theorem retries_exhausted_witness:
  "isRetryable ''500 Internal Server Error''
   \<and> callGeminiImageApi server_error_500 [TextPart ''x''] empty_world =
       (Inl (JsError ''500 Internal Server Error''),
        \<lparr>requests = [[TextPart ''x''], [TextPart ''x''], [TextPart ''x'']],
           sleeps = [1500, 3000]\<rparr>)"
proof -
  have r: "isRetryable ''500 Internal Server Error''"
    by (simp add: isRetryable_def)
  have m: "errorMessage (ErrorInstance ''500 Internal Server Error'')
             = Some ''500 Internal Server Error''"
    by (simp add: errorMessage_def)
  have t: "tryBlock (server_error_500 k [TextPart ''x''])
             = Inl (ErrorInstance ''500 Internal Server Error'')" for k
    by (simp add: server_error_500_def tryBlock_def)
  show ?thesis
    using retries_exhausted [of server_error_500 empty_world "[TextPart ''x'']"
        "ErrorInstance ''500 Internal Server Error''" "''500 Internal Server Error''"
        "ErrorInstance ''500 Internal Server Error''" "''500 Internal Server Error''"
        "ErrorInstance ''500 Internal Server Error''" "''500 Internal Server Error''"] t m r
    by (simp add: empty_world_def)
qed

text \<open>
  C3 as stated fails: when every call rejects with the string \<open>"500"\<close>, each failure is
  retryable by its text, and after the third attempt the error raised carries
  \<open>Failed to generate image.\<close>, not the text of the last failure.
\<close>

theorem retries_exhausted_counterexample:
  \<open>tryBlock (rejects_with_string_500 3 [TextPart ''x'']) = Inl (NonError (Some ''"500"''))
   \<and> errorMessage (NonError (Some ''"500"'')) = Some ''"500"''
   \<and> isRetryable ''"500"''
   \<and> callGeminiImageApi rejects_with_string_500 [TextPart ''x''] empty_world =
       (Inl (JsError ''Failed to generate image.''),
        \<lparr>requests = [[TextPart ''x''], [TextPart ''x''], [TextPart ''x'']],
           sleeps = [1500, 3000]\<rparr>)
   \<and> ''Failed to generate image.'' \<noteq> ''"500"''\<close>
proof -
  have r: \<open>isRetryable ''"500"''\<close>
    by (simp add: isRetryable_def)
  have t: \<open>tryBlock (rejects_with_string_500 k [TextPart ''x''])
             = Inl (NonError (Some ''"500"''))\<close> for k
    by (simp add: tryBlock_def rejects_with_string_500_def)
  have m: \<open>errorMessage (NonError (Some ''"500"'')) = Some ''"500"''\<close>
    by (simp add: errorMessage_def)
  have \<open>attempt_loop rejects_with_string_500 [TextPart ''x''] 1 empty_world =
       (Threw (JsError (rethrownMessage (NonError (Some ''"500"'')))),
        empty_world\<lparr>requests := requests empty_world @ [[TextPart ''x''], [TextPart ''x''], [TextPart ''x'']],
                    sleeps := sleeps empty_world @ [1500, 3000]\<rparr>)\<close>
    using loop_third_attempt_fails [of rejects_with_string_500 empty_world \<open>[TextPart ''x'']\<close>
        \<open>NonError (Some ''"500"'')\<close> \<open>''"500"''\<close>
        \<open>NonError (Some ''"500"'')\<close> \<open>''"500"''\<close>
        \<open>NonError (Some ''"500"'')\<close> \<open>''"500"''\<close>] r t m
    by simp
  then have \<open>callGeminiImageApi rejects_with_string_500 [TextPart ''x''] empty_world =
       (Inl (JsError ''Failed to generate image.''),
        \<lparr>requests = [[TextPart ''x''], [TextPart ''x''], [TextPart ''x'']],
           sleeps = [1500, 3000]\<rparr>)\<close>
    unfolding callGeminiImageApi_def by (simp add: rethrownMessage_def empty_world_def)
  with r t m show ?thesis by simp
qed

text \<open>
  C4. When the first attempt fails with a failure whose text contains none of the
  retryable markers, the call raises an error at once: the contents have been sent
  exactly once and nothing else of the world has changed, so there was no suspension.
\<close>

theorem fatal_first_attempt:
  assumes "tryBlock (api (length (requests w) + 1) ps) = Inl e"
    and "errorMessage e = Some m" and "\<not> isRetryable m"
  shows "callGeminiImageApi api ps w =
           (Inl (JsError (rethrownMessage e)), w\<lparr>requests := requests w @ [ps]\<rparr>)"
proof -
  have "attempt_loop api ps 1 w =
          (Threw (JsError (rethrownMessage e)), w\<lparr>requests := requests w @ [ps]\<rparr>)"
    using loop_rethrows [of 1 api w ps e m] assms by (simp add: maxRetries_def)
  then show ?thesis unfolding callGeminiImageApi_def by simp
qed

theorem fatal_first_attempt_witness:
  "\<not> isRetryable ''401 unauthorized''
   \<and> callGeminiImageApi unauthorized [TextPart ''x''] empty_world =
       (Inl (JsError ''401 unauthorized''), \<lparr>requests = [[TextPart ''x'']], sleeps = []\<rparr>)"
proof -
  have n: "\<not> isRetryable ''401 unauthorized''"
    by (simp add: isRetryable_def)
  have t: "tryBlock (unauthorized (length (requests empty_world) + 1) [TextPart ''x''])
             = Inl (ErrorInstance ''401 unauthorized'')"
    by (simp add: tryBlock_def unauthorized_def)
  have m: "errorMessage (ErrorInstance ''401 unauthorized'') = Some ''401 unauthorized''"
    by (simp add: errorMessage_def)
  show ?thesis
    using fatal_first_attempt [of unauthorized empty_world "[TextPart ''x'']"
        "ErrorInstance ''401 unauthorized''" "''401 unauthorized''"] n t m
    by (simp add: empty_world_def rethrownMessage_def)
qed

text \<open>
  C6. Started at attempt 1, the loop never ends by its condition becoming false: it
  returns an image or throws. The \<open>Maximum retries exceeded.\<close> raise after the loop is
  therefore never reached, whatever the outcomes of the model calls are.
\<close>

theorem loop_exit_never_falls_through:
  "fst (attempt_loop api ps 1 w) \<noteq> LoopEnded"
proof -
  have "attempt \<le> maxRetries \<Longrightarrow> fst (attempt_loop api ps attempt w) \<noteq> LoopEnded" for attempt
  proof (induction api ps attempt w rule: attempt_loop.induct)
    case (1 api ps attempt w)
    then show ?case
      by (subst attempt_loop.simps) (auto simp: Let_def split: sum.splits option.splits)
  qed
  then show ?thesis by (simp add: maxRetries_def)
qed

theorem loop_exit_never_falls_through_witness:
  "fst (attempt_loop server_error_500 [TextPart ''x''] 1 empty_world) \<noteq> LoopEnded"
  using loop_exit_never_falls_through [of server_error_500 "[TextPart ''x'']" empty_world]
  by simp

section \<open>The model invoker\<close>

lemma find_None_iff_list_ex: "(List.find P xs = None) = (\<not> list_ex P xs)"
  by (induction xs) auto

lemma find_first_match:
  "\<forall>p \<in> set pre. \<not> P p \<Longrightarrow> P x \<Longrightarrow> List.find P (pre @ x # post) = Some x"
  by (induction pre) auto

lemma imagePart_None: "(imagePart r = None) = (\<not> first_candidate_has_image r)"
  by (cases r)
     (auto simp: imagePart_def first_candidate_has_image_def candidate_has_image_def
        find_None_iff_list_ex split: option.splits list.splits)

lemma imagePart_inline: "imagePart r = Some p \<Longrightarrow> inlineData p \<noteq> None"
  by (auto simp: imagePart_def split: option.splits dest: find_Some_iff [THEN iffD1])

text \<open>
  C5 (as amended). An attempt whose call resolves fails with the no-image error exactly
  when the first candidate of the response is absent or contains no part with inline
  image data; candidates after the first are not looked at. When the first candidate
  has such a part, the attempt returns the first of them as
  \<open>data:<mimeType>;base64,<data>\<close>.
\<close>

theorem invoker_output:
  "(tryBlock (Resolves r) = Inl (ErrorInstance noImageMessage))
     = (\<not> first_candidate_has_image r)
   \<and> (candidates r = Some (c # cs) \<and> content c = Some ct
        \<and> parts ct = Some (pre @ Part t (Some b) # post)
        \<and> (\<forall>p \<in> set pre. inlineData p = None)
      \<longrightarrow> tryBlock (Resolves r) = Inr (''data:'' @ mimeType b @ '';base64,'' @ data b))"
proof (intro conjI impI)
  show "(tryBlock (Resolves r) = Inl (ErrorInstance noImageMessage))
          = (\<not> first_candidate_has_image r)"
    using imagePart_None [of r] imagePart_inline [of r]
    by (auto simp: tryBlock_def split: option.splits)
next
  assume a: "candidates r = Some (c # cs) \<and> content c = Some ct
        \<and> parts ct = Some (pre @ Part t (Some b) # post)
        \<and> (\<forall>p \<in> set pre. inlineData p = None)"
  then have "List.find (\<lambda>p. inlineData p \<noteq> None) (pre @ Part t (Some b) # post)
               = Some (Part t (Some b))"
    by (intro find_first_match) auto
  with a have "imagePart r = Some (Part t (Some b))"
    by (simp add: imagePart_def)
  then show "tryBlock (Resolves r) = Inr (''data:'' @ mimeType b @ '';base64,'' @ data b)"
    by (simp add: tryBlock_def dataUrl_def)
qed

theorem invoker_output_witness:
  "first_candidate_has_image png_response
   \<and> tryBlock (Resolves png_response) \<noteq> Inl (ErrorInstance noImageMessage)
   \<and> tryBlock (Resolves png_response) = Inr ''data:image/png;base64,QUJD''"
proof -
  have h: "first_candidate_has_image png_response"
    by (simp add: first_candidate_has_image_def candidate_has_image_def png_response_def)
  show ?thesis
    using invoker_output [of png_response
        "Candidate (Some (Content (Some
           [Part (Some ''Here is your painting'') None,
            Part None (Some (Blob ''image/png'' ''QUJD''))])))"
        "[]"
        "Content (Some [Part (Some ''Here is your painting'') None,
                        Part None (Some (Blob ''image/png'' ''QUJD''))])"
        "[Part (Some ''Here is your painting'') None]" None
        "Blob ''image/png'' ''QUJD''" "[]"] h
    by (simp add: png_response_def)
qed

text \<open>
  C5 as stated fails: a response whose second candidate contains an image and whose
  first does not makes the attempt fail with the no-image error.
\<close>

theorem invoker_output_counterexample:
  "response_has_image image_in_second_candidate
   \<and> tryBlock (Resolves image_in_second_candidate) = Inl (ErrorInstance noImageMessage)"
  by (simp add: response_has_image_def image_in_second_candidate_def candidate_has_image_def
      tryBlock_def imagePart_def)

section \<open>The data URL and its parsing in editWatercolourPainting\<close>

text \<open>
  C7 (as amended). For a media type that contains none of \<open>;\<close>, \<open>:\<close> and \<open>,\<close> and a
  payload that contains no \<open>,\<close> (as every base64 payload does), parsing the string
  \<open>data:<mediaType>;base64,<payload>\<close> the way \<open>editWatercolourPainting\<close> does gives
  back the media type and the payload.
\<close>

theorem data_url_round_trip:
  assumes "CHR '';'' \<notin> set mt" and "CHR '':'' \<notin> set mt" and "CHR '','' \<notin> set mt"
    and "CHR '','' \<notin> set d"
  shows "mimeType_of (dataUrl (Blob mt d)) = Inr (Some mt)
         \<and> base64Data_of (dataUrl (Blob mt d)) = Some d"
proof
  have "js_split (CHR '';'') ((''data:'' @ mt) @ CHR '';'' # ''base64,'' @ d)
          = (''data:'' @ mt) # js_split (CHR '';'') (''base64,'' @ d)"
    using assms(1) by (intro js_split_first) simp
  moreover have "js_split (CHR '':'') (''data'' @ CHR '':'' # mt)
                   = ''data'' # js_split (CHR '':'') mt"
    by (intro js_split_first) simp
  moreover have "js_split (CHR '':'') mt = [mt]"
    using assms(2) by (rule js_split_no_sep)
  ultimately show "mimeType_of (dataUrl (Blob mt d)) = Inr (Some mt)"
    by (simp add: mimeType_of_def dataUrl_def)
next
  have "js_split (CHR '','') ((''data:'' @ mt @ '';base64'') @ CHR '','' # d)
          = (''data:'' @ mt @ '';base64'') # js_split (CHR '','') d"
    using assms(3) by (intro js_split_first) simp
  moreover have "js_split (CHR '','') d = [d]"
    using assms(4) by (rule js_split_no_sep)
  ultimately show "base64Data_of (dataUrl (Blob mt d)) = Some d"
    by (simp add: base64Data_of_def dataUrl_def)
qed

theorem data_url_round_trip_witness:
  "CHR '';'' \<notin> set ''image/png'' \<and> CHR '':'' \<notin> set ''image/png''
   \<and> CHR '','' \<notin> set ''image/png'' \<and> CHR '','' \<notin> set ''QUJD''
   \<and> mimeType_of (dataUrl (Blob ''image/png'' ''QUJD'')) = Inr (Some ''image/png'')
   \<and> base64Data_of (dataUrl (Blob ''image/png'' ''QUJD'')) = Some ''QUJD''"
proof -
  have h: "CHR '';'' \<notin> set ''image/png''" "CHR '':'' \<notin> set ''image/png''"
    "CHR '','' \<notin> set ''image/png''" "CHR '','' \<notin> set ''QUJD''"
    by simp_all
  show ?thesis
    using data_url_round_trip [OF h] h by simp
qed

text \<open>
  C7 as stated fails: a media type with a parameter, \<open>image/svg+xml;charset=utf-8\<close>,
  comes back from the parsing cut at its \<open>;\<close>.
\<close>

theorem data_url_round_trip_counterexample:
  "mimeType_of (dataUrl (Blob ''image/svg+xml;charset=utf-8'' ''QUJD''))
     = Inr (Some ''image/svg+xml'')
   \<and> ''image/svg+xml'' \<noteq> ''image/svg+xml;charset=utf-8''"
  by (simp add: mimeType_of_def dataUrl_def)

lemma mimeType_of_total: "\<exists>mt. mimeType_of s = Inr mt"
  using js_split_nonempty [of "CHR '';''" s]
  by (cases "js_split (CHR '';'') s") (auto simp: mimeType_of_def)

lemma base64Data_of_no_comma: "CHR '','' \<notin> set s \<Longrightarrow> base64Data_of s = None"
  by (simp add: base64Data_of_def js_split_no_sep)

text \<open>
  C10. The parsing of the base image in \<open>editWatercolourPainting\<close> never raises. For a
  base image without a comma the payload is \<open>undefined\<close>, and the model is still called,
  at least once, with an inline part whose data is \<open>undefined\<close> followed by the edit
  prompt.
\<close>

theorem edit_does_not_validate:
  "(\<exists>mt. mimeType_of s = Inr mt)
   \<and> (CHR '','' \<notin> set s \<longrightarrow>
        base64Data_of s = None
        \<and> (\<exists>mt n. requests (snd (editWatercolourPainting api s instruction original w)) =
              requests w @ replicate (Suc n)
                [InlineDataPart None mt, TextPart (editPromptText instruction original)]))"
proof (intro conjI impI)
  show "\<exists>mt. mimeType_of s = Inr mt" by (rule mimeType_of_total)
next
  assume "CHR '','' \<notin> set s"
  then show "base64Data_of s = None" by (rule base64Data_of_no_comma)
next
  assume a: "CHR '','' \<notin> set s"
  obtain mt where mt: "mimeType_of s = Inr mt" using mimeType_of_total by blast
  obtain n where "requests (snd (callGeminiImageApi api
      [InlineDataPart None mt, TextPart (editPromptText instruction original)] w)) =
      requests w @ replicate (Suc n)
        [InlineDataPart None mt, TextPart (editPromptText instruction original)]"
    using call_requests by blast
  then have "requests (snd (editWatercolourPainting api s instruction original w)) =
              requests w @ replicate (Suc n)
                [InlineDataPart None mt, TextPart (editPromptText instruction original)]"
    using mt base64Data_of_no_comma [OF a] by (simp add: editWatercolourPainting_def)
  then show "\<exists>mt n. requests (snd (editWatercolourPainting api s instruction original w)) =
              requests w @ replicate (Suc n)
                [InlineDataPart None mt, TextPart (editPromptText instruction original)]"
    by blast
qed

theorem edit_does_not_validate_witness:
  "CHR '','' \<notin> set ''not a data url''
   \<and> base64Data_of ''not a data url'' = None
   \<and> mimeType_of ''not a data url'' = Inr None
   \<and> (\<exists>mt n. requests (snd (editWatercolourPainting always_paints ''not a data url''
                 ''Add a boat'' ''Paris'' empty_world)) =
         requests empty_world @ replicate (Suc n)
           [InlineDataPart None mt, TextPart (editPromptText ''Add a boat'' ''Paris'')])"
proof -
  have h: "CHR '','' \<notin> set ''not a data url''" by simp
  have m: "mimeType_of ''not a data url'' = Inr None"
    by (simp add: mimeType_of_def)
  show ?thesis
    using edit_does_not_validate [of "''not a data url''" always_paints "''Add a boat''"
        "''Paris''" empty_world] h m
    by simp
qed

section \<open>The prompts\<close>

lemma call_always_paints:
  "callGeminiImageApi always_paints ps w =
     (Inr ''data:image/png;base64,QUJD'', w\<lparr>requests := requests w @ [ps]\<rparr>)"
proof -
  have "tryBlock (always_paints (Suc (length (requests w))) ps)
          = Inr ''data:image/png;base64,QUJD''"
    by (simp add: always_paints_def tryBlock_png)
  then have "attempt_loop always_paints ps 1 w =
      (Returned ''data:image/png;base64,QUJD'', w\<lparr>requests := requests w @ [ps]\<rparr>)"
    by (intro loop_returns) (simp add: maxRetries_def)
  then show ?thesis unfolding callGeminiImageApi_def by simp
qed

lemma count_skip:
  "(\<And>i. i < length a \<Longrightarrow> \<not> prefix sub (drop i a @ b)) \<Longrightarrow>
     count_occurrences (a @ b) sub = count_occurrences b sub"
proof (induction a)
  case Nil
  then show ?case by simp
next
  case (Cons x a)
  have "\<not> prefix sub (x # a @ b)" using Cons.prems [of 0] by simp
  moreover have "count_occurrences (a @ b) sub = count_occurrences b sub"
  proof (rule Cons.IH)
    fix i assume "i < length a"
    then show "\<not> prefix sub (drop i a @ b)" using Cons.prems [of "Suc i"] by simp
  qed
  ultimately show ?case by simp
qed

lemma count_mono_left: "count_occurrences b sub \<le> count_occurrences (a @ b) sub"
  by (induction a) auto

lemma suffix_borders_complete:
  "j < length t \<Longrightarrow> prefix (drop j t) s \<Longrightarrow> length t - j \<in> set (suffix_borders s t)"
proof (induction t arbitrary: j)
  case Nil
  then show ?case by simp
next
  case (Cons x t)
  show ?case
  proof (cases j)
    case 0
    then show ?thesis using Cons.prems by simp
  next
    case (Suc k)
    then have "length t - k \<in> set (suffix_borders s t)"
      using Cons.prems by (intro Cons.IH) auto
    then show ?thesis using Suc by simp
  qed
qed

lemma clear_of_complete:
  "clear_of P r \<Longrightarrow> i < length P \<Longrightarrow> \<not> prefix (drop i P) r \<and> \<not> prefix r (drop i P)"
proof (induction P arbitrary: i)
  case Nil
  then show ?case by simp
next
  case (Cons x P)
  show ?case
  proof (cases i)
    case 0
    then show ?thesis using Cons.prems by simp
  next
    case (Suc k)
    then show ?thesis using Cons.prems Cons.IH [of k] by simp
  qed
qed

text \<open>
  A text \<open>r\<close> that occurs once in the fixed end \<open>S\<close> of a template \<open>P @ p @ S\<close> occurs
  once in the whole when no occurrence can start in \<open>P\<close>, the only way an occurrence
  can run from \<open>p\<close> into \<open>S\<close> is by its last character, and \<open>p\<close> does not contain \<open>r\<close>
  less its last character.
\<close>

lemma once_in_template:
  assumes ne: "r \<noteq> []"
    and clear: "clear_of P r"
    and borders: "suffix_borders S (tl r) = [1]"
    and once: "count_occurrences S r = 1"
    and fresh: "\<not> js_includes p (butlast r)"
  shows "count_occurrences (P @ p @ S) r = 1"
proof -
  have no: "\<not> prefix r (drop i (P @ p) @ S)" if i: "i < length (P @ p)" for i
  proof
    assume pre: "prefix r (drop i (P @ p) @ S)"
    show False
    proof (cases "i < length P")
      case True
      then have "prefix r (drop i P @ (p @ S))" using pre by simp
      moreover have "prefix (drop i P) (drop i P @ (p @ S))" by simp
      ultimately have "prefix r (drop i P) \<or> prefix (drop i P) r"
        by (rule prefix_same_cases)
      then show False using clear_of_complete [OF clear True] by blast
    next
      case False
      define w where "w = drop (i - length P) p"
      have dw: "drop i (P @ p) = w" using False by (simp add: w_def)
      have wne: "w \<noteq> []" using i False by (simp add: w_def)
      have pw: "p = take (i - length P) p @ w" by (simp add: w_def)
      from pre have pre': "prefix r (w @ S)" unfolding dw .
      have cmp: "prefix r w \<or> prefix w r"
        using pre' by (rule prefix_same_cases) simp
      show False
      proof (cases "length w < length r")
        case False
        with cmp have "prefix r w" by (auto simp: prefix_def)
        then obtain t where "w = r @ t" by (auto simp: prefix_def)
        with pw have "p = take (i - length P) p @ (butlast r @ [last r]) @ t"
          using ne by simp
        then have "sublist (butlast r) p"
          by (metis sublist_appendI append.assoc)
        then show False using fresh by (simp add: js_includes_sublist)
      next
        case True
        with cmp have "prefix w r" by (auto dest: prefix_length_le)
        then obtain v where v: "r = w @ v" by (auto simp: prefix_def)
        with pre' have pv: "prefix v S" by simp
        obtain k where k: "length w = Suc k" using wne by (cases w) auto
        have dv: "drop k (tl r) = v" using v k by (simp add: drop_Suc [symmetric] drop_tl)
        have "k < length (tl r)" using True k by simp
        then have "length (tl r) - k \<in> set (suffix_borders S (tl r))"
          using pv dv suffix_borders_complete [of k "tl r" S] by simp
        then have "length (tl r) - k = 1" by (simp add: borders)
        then have "length w = length r - 1" using k True by simp
        moreover have "w = take (length w) r" using v by simp
        ultimately have "w = butlast r" by (simp add: butlast_conv_take)
        with pw have "sublist (butlast r) p"
          by (metis sublist_appendI append_Nil2)
        then show False using fresh by (simp add: js_includes_sublist)
      qed
    qed
  qed
  have "count_occurrences ((P @ p) @ S) r = count_occurrences S r"
    by (rule count_skip) (rule no)
  then show ?thesis using once by simp
qed

text \<open>The stylistic part of the template is the four requests, each on a line of its
  own after the full stop that ends the opening sentence.\<close>

lemma style_layout:
  "generateStyle =
     ''. \<newline>    '' @ styleBrushwork @ '' \<newline>    '' @ styleEssence
     @ '' \<newline>    '' @ styleSignature @ ''\<newline>    '' @ styleComposition"
  by (simp add: generateStyle_def styleBrushwork_def styleEssence_def styleSignature_def
      styleComposition_def)

text \<open>What the template's fixed text is like, by computation: no occurrence of the
  stylistic part or of one of its requests can start in the opening words; each ends
  with a full stop, as the text before the first request begins with one, and that is
  their only overlap; and each occurs once in the stylistic part.\<close>

lemma opening_clear:
  "clear_of generateOpening generateStyle"
  "clear_of generateOpening styleBrushwork"
  "clear_of generateOpening styleEssence"
  "clear_of generateOpening styleSignature"
  "clear_of generateOpening styleComposition"
  by code_simp+

lemma style_borders:
  "suffix_borders generateStyle (tl generateStyle) = [1]"
  "suffix_borders generateStyle (tl styleBrushwork) = [1]"
  "suffix_borders generateStyle (tl styleEssence) = [1]"
  "suffix_borders generateStyle (tl styleSignature) = [1]"
  "suffix_borders generateStyle (tl styleComposition) = [1]"
  by code_simp+

lemma style_counts:
  "count_occurrences generateStyle generateStyle = 1"
  "count_occurrences generateStyle styleBrushwork = 1"
  "count_occurrences generateStyle styleEssence = 1"
  "count_occurrences generateStyle styleSignature = 1"
  "count_occurrences generateStyle styleComposition = 1"
  by code_simp+

lemma style_nonempty:
  "generateStyle \<noteq> []" "styleBrushwork \<noteq> []" "styleEssence \<noteq> []"
  "styleSignature \<noteq> []" "styleComposition \<noteq> []"
  by (simp_all add: generateStyle_def styleBrushwork_def styleEssence_def styleSignature_def
      styleComposition_def)

lemma style_once:
  assumes "\<not> js_includes p (butlast generateStyle)"
  shows "count_occurrences (generatePrompt p) generateStyle = 1"
  unfolding generatePrompt_def
  using style_nonempty(1) opening_clear(1) style_borders(1) style_counts(1) assms
  by (rule once_in_template)

lemma request_once:
  assumes "r \<in> set styleRequests" and "\<not> js_includes p (butlast r)"
  shows "count_occurrences (generatePrompt p) r = 1"
proof -
  from assms(1) consider "r = styleBrushwork" | "r = styleEssence" | "r = styleSignature"
    | "r = styleComposition"
    by (auto simp: styleRequests_def)
  then show ?thesis
  proof cases
    case 1
    show ?thesis unfolding generatePrompt_def 1
      using style_nonempty(2) opening_clear(2) style_borders(2) style_counts(2)
        assms(2) [unfolded 1]
      by (rule once_in_template)
  next
    case 2
    show ?thesis unfolding generatePrompt_def 2
      using style_nonempty(3) opening_clear(3) style_borders(3) style_counts(3)
        assms(2) [unfolded 2]
      by (rule once_in_template)
  next
    case 3
    show ?thesis unfolding generatePrompt_def 3
      using style_nonempty(4) opening_clear(4) style_borders(4) style_counts(4)
        assms(2) [unfolded 3]
      by (rule once_in_template)
  next
    case 4
    show ?thesis unfolding generatePrompt_def 4
      using style_nonempty(5) opening_clear(5) style_borders(5) style_counts(5)
        assms(2) [unfolded 4]
      by (rule once_in_template)
  qed
qed

lemma at_least_once:
  assumes "count_occurrences generateStyle r = 1"
  shows "1 \<le> count_occurrences (generatePrompt p) r"
  using count_mono_left [of generateStyle r "generateOpening @ p"] assms
  by (simp add: generatePrompt_def)

lemma request_at_least_once:
  assumes "r \<in> set styleRequests"
  shows "1 \<le> count_occurrences (generatePrompt p) r"
proof -
  from assms have "count_occurrences generateStyle r = 1"
    by (auto simp: styleRequests_def style_counts)
  then show ?thesis by (rule at_least_once)
qed

text \<open>
  C8 (as amended). The Generate prompt is the fixed opening words, then the place
  description verbatim, then the fixed stylistic part, which is the four stylistic
  requests one after the other. So the prompt contains the place description, and it
  contains the stylistic part and each of the four requests at least once. It contains
  the stylistic part exactly once whenever the place description does not contain its
  text less the closing full stop, and it contains a request exactly once whenever the
  place description does not contain the text of that request less its closing full
  stop. The Edit prompt contains the edit instruction verbatim and the place description
  verbatim.
\<close>

theorem prompts_contain_inputs:
  "generatePrompt p = generateOpening @ p @ generateStyle
   \<and> generateStyle =
       ''. \<newline>    '' @ styleBrushwork @ '' \<newline>    '' @ styleEssence
       @ '' \<newline>    '' @ styleSignature @ ''\<newline>    '' @ styleComposition
   \<and> js_includes (generatePrompt p) p
   \<and> 1 \<le> count_occurrences (generatePrompt p) generateStyle
   \<and> (\<not> js_includes p (butlast generateStyle) \<longrightarrow>
        count_occurrences (generatePrompt p) generateStyle = 1)
   \<and> (\<forall>r \<in> set styleRequests.
        1 \<le> count_occurrences (generatePrompt p) r
        \<and> (\<not> js_includes p (butlast r) \<longrightarrow> count_occurrences (generatePrompt p) r = 1))
   \<and> js_includes (editPromptText instruction original) instruction
   \<and> js_includes (editPromptText instruction original) original"
proof (intro conjI impI ballI)
  show "generatePrompt p = generateOpening @ p @ generateStyle"
    by (rule generatePrompt_def)
next
  show "generateStyle =
       ''. \<newline>    '' @ styleBrushwork @ '' \<newline>    '' @ styleEssence
       @ '' \<newline>    '' @ styleSignature @ ''\<newline>    '' @ styleComposition"
    by (rule style_layout)
next
  show "js_includes (generatePrompt p) p"
    unfolding generatePrompt_def by (rule includes_skip, rule includes_here)
next
  show "1 \<le> count_occurrences (generatePrompt p) generateStyle"
    using style_counts(1) by (rule at_least_once)
next
  assume "\<not> js_includes p (butlast generateStyle)"
  then show "count_occurrences (generatePrompt p) generateStyle = 1"
    by (rule style_once)
next
  fix r assume "r \<in> set styleRequests"
  then show "1 \<le> count_occurrences (generatePrompt p) r"
    by (rule request_at_least_once)
next
  fix r assume "r \<in> set styleRequests" and "\<not> js_includes p (butlast r)"
  then show "count_occurrences (generatePrompt p) r = 1"
    by (rule request_once)
next
  show "js_includes (editPromptText instruction original) instruction"
    unfolding editPromptText_def
    by (rule includes_skip, rule includes_skip, rule includes_skip, rule includes_skip,
        rule includes_here)
next
  show "js_includes (editPromptText instruction original) original"
    unfolding editPromptText_def by (rule includes_skip, rule includes_here)
qed

theorem prompts_contain_inputs_witness:
  "\<not> js_includes ''Paris'' (butlast generateStyle)
   \<and> \<not> js_includes ''Paris'' (butlast styleBrushwork)
   \<and> \<not> js_includes ''Paris'' (butlast styleEssence)
   \<and> \<not> js_includes ''Paris'' (butlast styleSignature)
   \<and> \<not> js_includes ''Paris'' (butlast styleComposition)
   \<and> generatePrompt ''Paris'' = generateOpening @ ''Paris'' @ generateStyle
   \<and> js_includes (generatePrompt ''Paris'') ''Paris''
   \<and> count_occurrences (generatePrompt ''Paris'') generateStyle = 1
   \<and> count_occurrences (generatePrompt ''Paris'') styleBrushwork = 1
   \<and> count_occurrences (generatePrompt ''Paris'') styleEssence = 1
   \<and> count_occurrences (generatePrompt ''Paris'') styleSignature = 1
   \<and> count_occurrences (generatePrompt ''Paris'') styleComposition = 1
   \<and> js_includes (editPromptText ''Add a boat'' ''Paris'') ''Add a boat''
   \<and> js_includes (editPromptText ''Add a boat'' ''Paris'') ''Paris''"
proof -
  have h: "\<not> js_includes ''Paris'' (butlast generateStyle)"
    "\<not> js_includes ''Paris'' (butlast styleBrushwork)"
    "\<not> js_includes ''Paris'' (butlast styleEssence)"
    "\<not> js_includes ''Paris'' (butlast styleSignature)"
    "\<not> js_includes ''Paris'' (butlast styleComposition)"
    by code_simp+
  have mem: "styleBrushwork \<in> set styleRequests" "styleEssence \<in> set styleRequests"
    "styleSignature \<in> set styleRequests" "styleComposition \<in> set styleRequests"
    by (simp_all add: styleRequests_def)
  show ?thesis
    using prompts_contain_inputs [of "''Paris''" "''Add a boat''" "''Paris''"] h mem
    by blast
qed

text \<open>
  C8 as stated fails: a place description of one line that itself asks for the
  brushwork, typed into the place field and painted, gives a Generate prompt that
  contains that stylistic request twice.
\<close>

theorem prompts_contain_inputs_counterexample:
  "one_line_pasted_place \<noteq> []
   \<and> CHR 0x0A \<notin> set one_line_pasted_place
   \<and> requests (snd (run always_paints pasted_place_session (initial_app, empty_world))) =
       [[TextPart (generatePrompt one_line_pasted_place)]]
   \<and> styleBrushwork \<in> set styleRequests
   \<and> count_occurrences (generatePrompt one_line_pasted_place) styleBrushwork = 2"
proof -
  have ne: "one_line_pasted_place \<noteq> []"
    and nl: "CHR 0x0A \<notin> set one_line_pasted_place"
    by (simp_all add: one_line_pasted_place_def)
  have trim: "js_trim one_line_pasted_place = one_line_pasted_place"
    by code_simp
  have sent: "requests (snd (run always_paints pasted_place_session (initial_app, empty_world))) =
       [[TextPart (generatePrompt one_line_pasted_place)]]"
    using ne
    by (simp add: Let_def run_def pasted_place_session_def step_def initial_app_def
        empty_world_def handleGenerate_def generateWatercolourPainting_def
        call_always_paints trim)
  have twice: "count_occurrences (generatePrompt one_line_pasted_place) styleBrushwork = 2"
    by code_simp
  from ne nl sent twice show ?thesis by (simp add: styleRequests_def)
qed

section \<open>The place description an edit carries\<close>

lemma trim_examples:
  "js_trim ''Paris'' = ''Paris''" "js_trim ''Tokyo'' = ''Tokyo''"
  "js_trim ''Add a boat'' = ''Add a boat''"
  by (simp_all add: js_trim_def js_whitespace_def)

lemma parse_png:
  "mimeType_of ''data:image/png;base64,QUJD'' = Inr (Some ''image/png'')"
  "base64Data_of ''data:image/png;base64,QUJD'' = Some ''QUJD''"
  by (simp_all add: mimeType_of_def base64Data_of_def)

text \<open>
  C9. The claim does not hold of the component: \<open>handleEdit\<close> passes the current
  content of the place field, which the user can change after the picture was painted.
  In the session below the picture is painted from \<open>Paris\<close>, the field is retyped to
  \<open>Tokyo\<close>, and the edit request that follows describes the picture as one of \<open>Tokyo\<close>.
\<close>

theorem edit_after_retyping_place:
  "requests (snd (run always_paints retyped_place_session (initial_app, empty_world))) =
     [[TextPart (generatePrompt ''Paris'')],
      [InlineDataPart (Some ''QUJD'') (Some ''image/png''),
       TextPart (editPromptText ''Add a boat'' ''Tokyo'')]]"
  by (simp add: Let_def run_def retyped_place_session_def step_def initial_app_def
      empty_world_def handleGenerate_def handleEdit_def generateWatercolourPainting_def
      editWatercolourPainting_def call_always_paints trim_examples parse_png)

end
